theory Spec2Isabelle
  imports Main
begin

section \<open>Strings and formatting\<close>

text \<open>
  Go strings are byte strings; they are modelled as \<open>string\<close> (a list of 8-bit characters).
  The development follows \<^verbatim>\<open>cmd/policy-update-service.go\<close>. The listing holds the file
  twice; the second copy only adds Prometheus counters and timers around the same
  statements, so the handlers are modelled once, without the metrics.
\<close>

definition newline :: string where
  "newline = [CHR 0x0A]"

fun digits :: "nat \<Rightarrow> string" where
  "digits n = (if n < 10 then [char_of (48 + n)]
               else digits (n div 10) @ [char_of (48 + n mod 10)])"

declare digits.simps [simp del]

definition fmt_d :: "int \<Rightarrow> string" where
  \<comment> \<open>fmt's verb \<^verbatim>\<open>%d\<close> on an integer\<close>
  "fmt_d i = (if i < 0 then CHR ''-'' # digits (nat (- i)) else digits (nat i))"

fun quote_body :: "string \<Rightarrow> string" where
  "quote_body [] = []"
| "quote_body (c # cs) =
     (if c = CHR 0x22 then CHR 0x5C # CHR 0x22 # quote_body cs
      else if c = CHR 0x5C then CHR 0x5C # CHR 0x5C # quote_body cs
      else c # quote_body cs)"

definition fmt_q :: "string \<Rightarrow> string" where
  \<comment> \<open>fmt's verb \<^verbatim>\<open>%q\<close> on a string of printable ASCII: double quotes around the text,
      with the double quote and the backslash escaped. (Go also escapes control and
      non-ASCII bytes; those do not occur in the field names printed here.)\<close>
  "fmt_q s = CHR 0x22 # quote_body s @ [CHR 0x22]"

definition HasPrefix :: "string \<Rightarrow> string \<Rightarrow> bool" where
  "HasPrefix s p = (take (length p) s = p)"

definition TrimPrefix :: "string \<Rightarrow> string \<Rightarrow> string" where
  "TrimPrefix s p = (if HasPrefix s p then drop (length p) s else s)"

section \<open>Go error values\<close>

text \<open>
  The error values the handlers inspect. \<open>SyntaxError msg Offset\<close> and
  \<open>UnmarshalTypeError Value Struct Field Type Offset\<close> are the two encoding/json error
  types named in \<open>updatePolicy\<close>; \<open>ErrUnexpectedEOF\<close> and \<open>EOF\<close> are the io sentinels;
  \<open>ValidationError m\<close> is jwt-go's error with message \<open>m\<close>; \<open>ErrorString s\<close> is any error
  built by \<^verbatim>\<open>errors.New\<close> or \<^verbatim>\<open>fmt.Errorf\<close>.
\<close>

datatype error =
    SyntaxError string int
  | ErrUnexpectedEOF
  | EOF
  | UnmarshalTypeError string string string string int
  | ValidationError string
  | ErrorString string

fun Error :: "error \<Rightarrow> string" where
  "Error (SyntaxError msg off) = msg"
| "Error ErrUnexpectedEOF = ''unexpected EOF''"
| "Error EOF = ''EOF''"
| "Error (UnmarshalTypeError v s f t off) =
     (if s = [] then (if f = [] then ''json: cannot unmarshal '' @ v @ '' into Go value of type '' @ t
                      else ''json: cannot unmarshal '' @ v @ '' into Go struct field '' @ s @ ''.'' @ f @ '' of type '' @ t)
      else ''json: cannot unmarshal '' @ v @ '' into Go struct field '' @ s @ ''.'' @ f @ '' of type '' @ t)"
| "Error (ValidationError m) = m"
| "Error (ErrorString s) = s"

section \<open>Tokens, kept symbolic\<close>

text \<open>
  A JSON Web Token is three base64url segments: header, claims, signature. The header and
  the claims are kept as the member lists of their JSON objects; the signature is kept
  symbolic: \<open>HMAC h k hdr cl\<close> is the message authentication code computed with hash
  \<open>h\<close> and key \<open>k\<close> over the first two segments, any other byte string is
  \<open>OtherSignature\<close>. Two authentication codes are equal exactly when hash, key and signed
  text are equal (the usual perfect-cryptography reading).

  Numeric claims are integer valued (\<open>CNumber\<close>); \<open>COther\<close> holds the text of an array or
  object.
\<close>

datatype claim_value = CString string | CNumber int | CBool bool | CNull | COther string

type_synonym MapClaims = "(string \<times> claim_value) list"

datatype signature = HMAC string string MapClaims MapClaims | OtherSignature string

record jwt =
  segment_header :: MapClaims
  segment_claims :: MapClaims
  segment_signature :: signature

text \<open>
  A byte string on the wire: plain text, or the compact serialisation of a token.
  \<open>Str s\<close> stands for text that is not the serialisation of any token.
\<close>

datatype bytes = Str string | Compact jwt

section \<open>The response writer of net/http\<close>

text \<open>
  \<open>status\<close> is \<open>None\<close> until the header is written. The first \<^verbatim>\<open>WriteHeader\<close> fixes the
  status; a later call is superfluous and changes nothing. \<^verbatim>\<open>Write\<close> writes the header
  with 200 when none was written, then appends to the body.
\<close>

record response =
  header :: "(string \<times> string) list"
  status :: "nat option"
  body :: "bytes list"

definition new_response :: response where
  "new_response = \<lparr>header = [], status = None, body = []\<rparr>"

definition Set :: "response \<Rightarrow> string \<Rightarrow> string \<Rightarrow> response" where
  "Set w k v = w\<lparr>header := (k, v) # filter (\<lambda>kv. fst kv \<noteq> k) (header w)\<rparr>"

definition WriteHeader :: "response \<Rightarrow> nat \<Rightarrow> response" where
  "WriteHeader w code = (case status w of None \<Rightarrow> w\<lparr>status := Some code\<rparr> | Some c \<Rightarrow> w)"

definition Write :: "response \<Rightarrow> bytes \<Rightarrow> response" where
  "Write w b = (let w1 = WriteHeader w 200 in w1\<lparr>body := body w1 @ [b]\<rparr>)"

definition http_Error :: "response \<Rightarrow> string \<Rightarrow> nat \<Rightarrow> response" where
  "http_Error w msg code =
     Write (WriteHeader
              (Set (Set w ''Content-Type'' ''text/plain; charset=utf-8'')
                   ''X-Content-Type-Options'' ''nosniff'')
              code)
           (Str (msg @ newline))"

definition delivered_status :: "response \<Rightarrow> nat" where
  \<comment> \<open>the status line the client receives: 200 when the handler never wrote a header\<close>
  "delivered_status w = (case status w of None \<Rightarrow> 200 | Some c \<Rightarrow> c)"

definition StatusBadRequest :: nat where "StatusBadRequest = 400"
definition StatusUnauthorized :: nat where "StatusUnauthorized = 401"
definition StatusRequestEntityTooLarge :: nat where "StatusRequestEntityTooLarge = 413"
definition StatusUnsupportedMediaType :: nat where "StatusUnsupportedMediaType = 415"
definition StatusInternalServerError :: nat where "StatusInternalServerError = 500"

definition cors :: "response \<Rightarrow> response" where
  \<comment> \<open>the four \<^verbatim>\<open>w.Header().Set\<close> calls that open every handler\<close>
  "cors w =
     Set (Set (Set (Set w ''Access-Control-Allow-Methods'' ''*'')
                   ''Access-Control-Allow-Origin'' ''*'')
              ''Access-Control-Allow-Headers'' ''*'')
         ''Access-Control-Expose-Headers'' ''*''"

section \<open>The Content-Type header\<close>

text \<open>
  \<^verbatim>\<open>header.ParseValueAndParams\<close> (golang/gddo) reads the leading run of token characters
  and slashes of the header value and lower-cases it; parameters after it are returned
  separately and \<open>updatePolicy\<close> discards them. Token characters are the US-ASCII
  characters that are neither controls nor separators (RFC 2616).
\<close>

definition separators :: "char list" where
  "separators = [CHR 0x20, CHR 0x09, CHR 0x22, CHR ''('', CHR '')'', CHR '','', CHR ''/'',
                 CHR '':'', CHR '';'', CHR ''<'', CHR ''='', CHR ''>'', CHR ''?'', CHR ''@'',
                 CHR ''['', CHR '']'', CHR 0x5C, CHR ''{'', CHR ''}'']"

definition isToken :: "char \<Rightarrow> bool" where
  "isToken c = (let n = (of_char c :: nat)
                in n \<le> 127 \<and> 31 < n \<and> n < 127 \<and> c \<notin> set separators)"

definition toLower :: "char \<Rightarrow> char" where
  "toLower c = (let n = (of_char c :: nat) in if 65 \<le> n \<and> n \<le> 90 then char_of (n + 32) else c)"

definition toUpper :: "char \<Rightarrow> char" where
  "toUpper c = (let n = (of_char c :: nat) in if 97 \<le> n \<and> n \<le> 122 then char_of (n - 32) else c)"

definition expectTokenSlash :: "string \<Rightarrow> string" where
  "expectTokenSlash s = takeWhile (\<lambda>b. isToken b \<or> b = CHR ''/'') s"

definition ParseValue :: "string \<Rightarrow> string" where
  \<comment> \<open>the first result of \<^verbatim>\<open>ParseValueAndParams\<close>\<close>
  "ParseValue s = map toLower (expectTokenSlash s)"

section \<open>The request body\<close>

record Policy =
  UnprocessableFileTypeAction :: "int option"
  GlasswallBlockedFilesAction :: "int option"

text \<open>
  Both fields are \<^verbatim>\<open>*int\<close>: \<open>None\<close> is the nil pointer. Go's \<^verbatim>\<open>int\<close> has 64 bits on the
  build target (GOARCH=amd64); the decoder refuses numbers outside that range, and no
  arithmetic is done on the values, so they are kept as mathematical integers.

  The body is read through \<^verbatim>\<open>http.MaxBytesReader\<close> by a \<^verbatim>\<open>json.Decoder\<close>. The decoder
  first scans one JSON value; when that fails the error is a syntax error, \<open>EOF\<close>,
  \<open>ErrUnexpectedEOF\<close> or the reader's error (\<open>Unreadable\<close>). Otherwise the scanned value
  is stored into the \<open>Policy\<close> (\<open>Scanned\<close>). A member of the top-level object is its key,
  its value and the decoder's read offset after the value; the contents of nested arrays
  and objects do not matter for a \<open>Policy\<close>.
\<close>

datatype jvalue =
    JNull | JBool bool | JInt int | JFrac string | JString string | JArray | JObject

datatype document = Members "(string \<times> jvalue \<times> int) list" | Literal jvalue int

datatype request_body = Scanned document | Unreadable error

datatype field = FUnprocessableFileTypeAction | FGlasswallBlockedFilesAction

fun field_name :: "field \<Rightarrow> string" where
  "field_name FUnprocessableFileTypeAction = ''UnprocessableFileTypeAction''"
| "field_name FGlasswallBlockedFilesAction = ''GlasswallBlockedFilesAction''"

text \<open>
  encoding/json matches a key against the struct's field names exactly first and then
  under folding: ASCII letters fold to upper case, and the long s (U+017F, bytes C5 BF)
  and the Kelvin sign (U+212A, bytes E2 84 AA) fold to \<open>S\<close> and \<open>K\<close>. The struct has no
  \<^verbatim>\<open>json\<close> tags, so the names are the Go field names.
\<close>

function foldName :: "string \<Rightarrow> string" where
  "foldName [] = []"
| "foldName (c # cs) =
     (if take 2 (c # cs) = [CHR 0xC5, CHR 0xBF] then CHR ''S'' # foldName (drop 1 cs)
      else if take 3 (c # cs) = [CHR 0xE2, CHR 0x84, CHR 0xAA] then CHR ''K'' # foldName (drop 2 cs)
      else toUpper c # foldName cs)"
  by pat_completeness auto
termination
  by (relation "measure length") auto

definition equalFold :: "string \<Rightarrow> string \<Rightarrow> bool" where
  "equalFold name key = (foldName name = foldName key)"

definition find_field :: "string \<Rightarrow> field option" where
  "find_field key =
     (if key = field_name FUnprocessableFileTypeAction then Some FUnprocessableFileTypeAction
      else if key = field_name FGlasswallBlockedFilesAction then Some FGlasswallBlockedFilesAction
      else if equalFold (field_name FUnprocessableFileTypeAction) key then Some FUnprocessableFileTypeAction
      else if equalFold (field_name FGlasswallBlockedFilesAction) key then Some FGlasswallBlockedFilesAction
      else None)"

fun describe :: "jvalue \<Rightarrow> string" where
  "describe JNull = ''null''"
| "describe (JBool b) = ''bool''"
| "describe (JInt n) = ''number '' @ fmt_d n"
| "describe (JFrac s) = ''number '' @ s"
| "describe (JString s) = ''string''"
| "describe JArray = ''array''"
| "describe JObject = ''object''"

fun get_field :: "field \<Rightarrow> Policy \<Rightarrow> int option" where
  "get_field FUnprocessableFileTypeAction p = UnprocessableFileTypeAction p"
| "get_field FGlasswallBlockedFilesAction p = GlasswallBlockedFilesAction p"

fun set_field :: "field \<Rightarrow> int option \<Rightarrow> Policy \<Rightarrow> Policy" where
  "set_field FUnprocessableFileTypeAction v p = p\<lparr>UnprocessableFileTypeAction := v\<rparr>"
| "set_field FGlasswallBlockedFilesAction v p = p\<lparr>GlasswallBlockedFilesAction := v\<rparr>"

definition saveError :: "error \<Rightarrow> error option \<Rightarrow> error option" where
  \<comment> \<open>the decoder keeps the first error and goes on\<close>
  "saveError e saved = (case saved of None \<Rightarrow> Some e | Some e0 \<Rightarrow> Some e0)"

definition fits_int :: "int \<Rightarrow> bool" where
  "fits_int n = (- (2 ^ 63) \<le> n \<and> n < 2 ^ 63)"

definition allocated :: "int option \<Rightarrow> int option" where
  \<comment> \<open>a nil pointer is replaced by a pointer to a fresh zero before the value is stored\<close>
  "allocated old = (case old of None \<Rightarrow> Some 0 | Some v \<Rightarrow> Some v)"

definition store_value :: "field \<Rightarrow> jvalue \<Rightarrow> int \<Rightarrow> Policy \<times> error option \<Rightarrow> Policy \<times> error option" where
  "store_value f v off st =
     (case st of (p, saved) \<Rightarrow>
        (case v of
           JNull \<Rightarrow> (set_field f None p, saved)
         | JInt n \<Rightarrow>
             (if fits_int n then (set_field f (Some n) p, saved)
              else (set_field f (allocated (get_field f p)) p,
                    saveError (UnmarshalTypeError (describe v) ''Policy'' (field_name f) ''int'' off) saved))
         | _ \<Rightarrow> (set_field f (allocated (get_field f p)) p,
                 saveError (UnmarshalTypeError (describe v) ''Policy'' (field_name f) ''int'' off) saved)))"

definition store_member :: "string \<times> jvalue \<times> int \<Rightarrow> Policy \<times> error option \<Rightarrow> Policy \<times> error option" where
  \<comment> \<open>one member of the object, with \<^verbatim>\<open>DisallowUnknownFields\<close> on\<close>
  "store_member m st =
     (case m of (key, v, off) \<Rightarrow>
        (case find_field key of
           Some f \<Rightarrow> store_value f v off st
         | None \<Rightarrow> (fst st, saveError (ErrorString (''json: unknown field '' @ fmt_q key)) (snd st))))"

definition zero_Policy :: Policy where
  "zero_Policy = \<lparr>UnprocessableFileTypeAction = None, GlasswallBlockedFilesAction = None\<rparr>"

definition unmarshal :: "document \<Rightarrow> error + Policy" where
  "unmarshal d =
     (case d of
        Members ms \<Rightarrow>
          (case foldl (\<lambda>st m. store_member m st) (zero_Policy, None) ms of
             (p, None) \<Rightarrow> Inr p
           | (p, Some e) \<Rightarrow> Inl e)
      | Literal v off \<Rightarrow>
          (case v of
             JNull \<Rightarrow> Inr zero_Policy
           | _ \<Rightarrow> Inl (UnmarshalTypeError (describe v) [] [] ''main.Policy'' off)))"

definition Decode :: "request_body \<Rightarrow> error + Policy" where
  "Decode b = (case b of Scanned d \<Rightarrow> unmarshal d | Unreadable e \<Rightarrow> Inl e)"

definition Encode_field :: "int option \<Rightarrow> string" where
  "Encode_field v = (case v of None \<Rightarrow> ''null'' | Some n \<Rightarrow> fmt_d n)"

definition Encode :: "Policy \<Rightarrow> string" where
  \<comment> \<open>\<^verbatim>\<open>json.NewEncoder(&b).Encode(p)\<close>: the object on one line\<close>
  "Encode p =
     [CHR ''{'', CHR 0x22] @ ''UnprocessableFileTypeAction'' @ [CHR 0x22, CHR '':'']
       @ Encode_field (UnprocessableFileTypeAction p)
       @ [CHR '','', CHR 0x22] @ ''GlasswallBlockedFilesAction'' @ [CHR 0x22, CHR '':'']
       @ Encode_field (GlasswallBlockedFilesAction p) @ [CHR ''}''] @ newline"

section \<open>updatePolicy\<close>

text \<open>
  The handler, statement by statement. Its inputs are the request's method, the value of
  \<^verbatim>\<open>r.Header.Get("Content-Type")\<close> (empty when the header is absent), the body, and the
  errors returned by \<^verbatim>\<open>args.GetClient()\<close> and \<^verbatim>\<open>args.UpdatePolicy()\<close> (package
  \<^verbatim>\<open>pkg\<close>, the configuration store). The result is the response writer and, once
  validation has passed, the string placed in \<^verbatim>\<open>args.Policy\<close>.
\<close>

record outcome =
  writer :: response
  args_Policy :: "string option"

definition decode_switch :: "response \<Rightarrow> error \<Rightarrow> response" where
  \<comment> \<open>the \<^verbatim>\<open>switch\<close> on the decoding error, cases in the source's order\<close>
  "decode_switch w err =
     (case err of
        SyntaxError msg off \<Rightarrow>
          http_Error w (''Request body contains badly-formed JSON (at position '' @ fmt_d off @ '')'')
            StatusBadRequest
      | ErrUnexpectedEOF \<Rightarrow>
          http_Error w ''Request body contains badly-formed JSON'' StatusBadRequest
      | UnmarshalTypeError v s f t off \<Rightarrow>
          http_Error w (''Request body contains an invalid value for the '' @ fmt_q f
                          @ '' field (at position '' @ fmt_d off @ '')'')
            StatusBadRequest
      | _ \<Rightarrow>
          (if HasPrefix (Error err) ''json: unknown field '' then
             http_Error w (''Request body contains unknown field ''
                             @ TrimPrefix (Error err) ''json: unknown field '')
               StatusBadRequest
           else if err = EOF then
             http_Error w ''Request body must not be empty'' StatusBadRequest
           else if Error err = ''http: request body too large'' then
             http_Error w ''Request body must not be larger than 1MB'' StatusRequestEntityTooLarge
           else
             http_Error w ''Internal Server Error'' StatusInternalServerError))"

definition updatePolicy ::
  "string \<Rightarrow> string \<Rightarrow> request_body \<Rightarrow> error option \<Rightarrow> error option \<Rightarrow> response \<Rightarrow> outcome" where
  "updatePolicy method contentType b getClient updateStore w0 =
     (let w = cors w0 in
      if method = ''OPTIONS'' then \<lparr>writer = w, args_Policy = None\<rparr>
      else if contentType \<noteq> [] \<and> ParseValue contentType \<noteq> ''application/json'' then
        \<lparr>writer = http_Error w ''Content-Type header is not application/json''
                    StatusUnsupportedMediaType,
         args_Policy = None\<rparr>
      else
        (case Decode b of
           Inl err \<Rightarrow>
             \<lparr>writer = decode_switch (http_Error w (Error err) StatusBadRequest) err,
              args_Policy = None\<rparr>
         | Inr p \<Rightarrow>
             (case UnprocessableFileTypeAction p of
                None \<Rightarrow>
                  \<lparr>writer = http_Error w ''UnprocessableFileTypeAction is required.'' StatusBadRequest,
                   args_Policy = None\<rparr>
              | Some u \<Rightarrow>
                  if u \<le> 0 \<or> u \<ge> 5 then
                    \<lparr>writer = http_Error w ''UnprocessableFileTypeAction must be between 1-4 inclusive.''
                                StatusBadRequest,
                     args_Policy = None\<rparr>
                  else
                    (case GlasswallBlockedFilesAction p of
                       None \<Rightarrow>
                         \<lparr>writer = http_Error w ''GlasswallBlockedFilesAction is required.''
                                     StatusBadRequest,
                          args_Policy = None\<rparr>
                     | Some g \<Rightarrow>
                         if g \<le> 0 \<or> g \<ge> 5 then
                           \<lparr>writer = http_Error w
                                       ''GlasswallBlockedFilesAction  must be between 1-4 inclusive.''
                                       StatusBadRequest,
                            args_Policy = None\<rparr>
                         else
                           (let str = Encode p in
                            case getClient of
                              Some e \<Rightarrow>
                                \<lparr>writer = http_Error w ''Something went wrong getting K8 Client.''
                                            StatusInternalServerError,
                                 args_Policy = Some str\<rparr>
                            | None \<Rightarrow>
                                (case updateStore of
                                   Some e \<Rightarrow>
                                     \<lparr>writer = http_Error w
                                                 ''Something went wrong when updating the config map.''
                                                 StatusInternalServerError,
                                      args_Policy = Some str\<rparr>
                                 | None \<Rightarrow>
                                     \<lparr>writer = Write w (Str ''Successfully updated config map.''),
                                      args_Policy = Some str\<rparr>))))))"

section \<open>Configuration\<close>

text \<open>The five environment variables read at start-up.\<close>

record config =
  listeningPort :: string
  namespace :: string
  configmapName :: string
  username :: string
  password :: string

section \<open>jwt-go\<close>

text \<open>
  The part of \<^verbatim>\<open>github.com/dgrijalva/jwt-go\<close> (version 3) the handlers call:
  \<^verbatim>\<open>NewWithClaims\<close>, \<^verbatim>\<open>SignedString\<close>, \<^verbatim>\<open>Parse\<close> with its key function, and the
  validation of \<^verbatim>\<open>MapClaims\<close>. A JSON object decoded into a Go map keeps the last of
  several members with one key, hence \<open>lookup\<close>.
\<close>

definition lookup :: "MapClaims \<Rightarrow> string \<Rightarrow> claim_value option" where
  "lookup m k = map_of (rev m) k"

datatype SigningMethod =
    SigningMethodHMAC string
  | SigningMethodRSA string
  | SigningMethodRSAPSS string
  | SigningMethodECDSA string
  | SigningMethodNone


definition GetSigningMethod :: "string \<Rightarrow> SigningMethod option" where
  \<comment> \<open>the methods the library registers\<close>
  "GetSigningMethod alg =
     (if alg \<in> set [''HS256'', ''HS384'', ''HS512''] then Some (SigningMethodHMAC alg)
      else if alg \<in> set [''RS256'', ''RS384'', ''RS512''] then Some (SigningMethodRSA alg)
      else if alg \<in> set [''PS256'', ''PS384'', ''PS512''] then Some (SigningMethodRSAPSS alg)
      else if alg \<in> set [''ES256'', ''ES384'', ''ES512''] then Some (SigningMethodECDSA alg)
      else if alg = ''none'' then Some SigningMethodNone
      else None)"


record Token =
  Method :: SigningMethod
  Header :: MapClaims
  Claims :: MapClaims
  Valid :: bool



definition Verify :: "SigningMethod \<Rightarrow> jwt \<Rightarrow> string \<Rightarrow> error option" where
  \<comment> \<open>\<^verbatim>\<open>token.Method.Verify\<close> of the first two segments against the third, with a
      byte-string key\<close>
  "Verify m t key =
     (case m of
        SigningMethodHMAC alg \<Rightarrow>
          (if segment_signature t = HMAC alg key (segment_header t) (segment_claims t) then None
           else Some (ErrorString ''signature is invalid''))
      | SigningMethodNone \<Rightarrow>
          Some (ErrorString ([CHR 0x27] @ ''none'' @ [CHR 0x27] @ '' signature type is not allowed''))
      | _ \<Rightarrow> Some (ErrorString ''key is of invalid type''))"

definition verifyExp :: "int \<Rightarrow> int \<Rightarrow> bool \<Rightarrow> bool" where
  "verifyExp exp now required = (if exp = 0 then \<not> required else now \<le> exp)"

definition verifyIat :: "int \<Rightarrow> int \<Rightarrow> bool \<Rightarrow> bool" where
  "verifyIat iat now required = (if iat = 0 then \<not> required else now \<ge> iat)"

definition verifyNbf :: "int \<Rightarrow> int \<Rightarrow> bool \<Rightarrow> bool" where
  "verifyNbf nbf now required = (if nbf = 0 then \<not> required else now \<ge> nbf)"

definition VerifyExpiresAt :: "MapClaims \<Rightarrow> int \<Rightarrow> bool \<Rightarrow> bool" where
  "VerifyExpiresAt m cmp req =
     (case lookup m ''exp'' of Some (CNumber e) \<Rightarrow> verifyExp e cmp req | _ \<Rightarrow> req = False)"

definition VerifyIssuedAt :: "MapClaims \<Rightarrow> int \<Rightarrow> bool \<Rightarrow> bool" where
  "VerifyIssuedAt m cmp req =
     (case lookup m ''iat'' of Some (CNumber i) \<Rightarrow> verifyIat i cmp req | _ \<Rightarrow> req = False)"

definition VerifyNotBefore :: "MapClaims \<Rightarrow> int \<Rightarrow> bool \<Rightarrow> bool" where
  "VerifyNotBefore m cmp req =
     (case lookup m ''nbf'' of Some (CNumber n) \<Rightarrow> verifyNbf n cmp req | _ \<Rightarrow> req = False)"

definition MapClaims_Valid :: "MapClaims \<Rightarrow> int \<Rightarrow> error option" where
  \<comment> \<open>the three time claims against \<open>now\<close>; the message of the last failing check stays\<close>
  "MapClaims_Valid m now =
     (let e1 = (if VerifyExpiresAt m now False then None else Some (ErrorString ''Token is expired''));
          e2 = (if VerifyIssuedAt m now False then e1 else Some (ErrorString ''Token used before issued''));
          e3 = (if VerifyNotBefore m now False then e2 else Some (ErrorString ''token is not valid yet''))
      in e3)"

definition Parse :: "bytes \<Rightarrow> (Token \<Rightarrow> error + string) \<Rightarrow> int \<Rightarrow> error + Token" where
  \<comment> \<open>\<open>now\<close> is \<^verbatim>\<open>TimeFunc().Unix()\<close>. \<open>Inl\<close> is a non-nil error; the text reported for a
      string that does not split into three decodable segments is not modelled further.\<close>
  "Parse tokenString keyFunc now =
     (case tokenString of
        Str s \<Rightarrow> Inl (ValidationError ''token contains an invalid number of segments'')
      | Compact t \<Rightarrow>
          (case lookup (segment_header t) ''alg'' of
             Some (CString alg) \<Rightarrow>
               (case GetSigningMethod alg of
                  None \<Rightarrow> Inl (ValidationError ''signing method (alg) is unavailable.'')
                | Some m \<Rightarrow>
                    (let token = \<lparr>Method = m, Header = segment_header t,
                                  Claims = segment_claims t, Valid = False\<rparr>
                     in case keyFunc token of
                          Inl e \<Rightarrow> Inl (ValidationError (Error e))
                        | Inr key \<Rightarrow>
                            (case Verify m t key of
                               Some e \<Rightarrow> Inl (ValidationError (Error e))
                             | None \<Rightarrow>
                                 (case MapClaims_Valid (segment_claims t) now of
                                    Some e \<Rightarrow> Inl (ValidationError (Error e))
                                  | None \<Rightarrow> Inr (token\<lparr>Valid := True\<rparr>)))))
           | _ \<Rightarrow> Inl (ValidationError ''signing method (alg) is unspecified.'')))"

section \<open>Identities\<close>

record Info =
  UserName :: string
  ID :: string
  Groups :: "string list"
  Extensions :: "(string \<times> string list) list"

definition NewDefaultUser :: "string \<Rightarrow> string \<Rightarrow> Info" where
  \<comment> \<open>\<^verbatim>\<open>auth.NewDefaultUser(name, id, nil, nil)\<close>\<close>
  "NewDefaultUser name ident = \<lparr>UserName = name, ID = ident, Groups = [], Extensions = []\<rparr>"

text \<open>A call either returns or panics (a failed type assertion, here).\<close>

datatype 'a result = Return 'a | Panic

section \<open>createToken\<close>


section \<open>validateUser\<close>




section \<open>verifyToken\<close>

definition keyFunc :: "Token \<Rightarrow> error + string" where
  \<comment> \<open>the function literal passed to \<^verbatim>\<open>jwt.Parse\<close>\<close>
  "keyFunc token =
     (case Method token of
        SigningMethodHMAC a \<Rightarrow> Inr ''secret''
      | _ \<Rightarrow> Inl (ErrorString (''Unexpected signing method: ''
                     @ (case lookup (Header token) ''alg'' of Some (CString a) \<Rightarrow> a | _ \<Rightarrow> ''<nil>''))))"

definition verifyToken :: "int \<Rightarrow> bytes \<Rightarrow> (error + Info) result" where
  "verifyToken now tokenString =
     (case Parse tokenString keyFunc now of
        Inl err \<Rightarrow> Return (Inl err)
      | Inr token \<Rightarrow>
          if Valid token then
            (case lookup (Claims token) ''sub'' of
               Some (CString s) \<Rightarrow> Return (Inr (NewDefaultUser s []))
             | _ \<Rightarrow> Panic)
          else Return (Inl (ErrorString ''Invalid token'')))"

section \<open>authMiddleware\<close>

text \<open>
  \<open>authenticated\<close> is what \<^verbatim>\<open>authenticator.Authenticate(r)\<close> (go-guardian, with the basic
  and the cached bearer strategy) returned; \<open>next\<close> is the router.
\<close>

definition authMiddleware ::
  "string \<Rightarrow> error + Info \<Rightarrow> (response \<Rightarrow> response) \<Rightarrow> response \<Rightarrow> response" where
  "authMiddleware method authenticated next w0 =
     (let w = cors w0 in
      if method = ''OPTIONS'' then w
      else
        (case authenticated of
           Inl err \<Rightarrow> http_Error w (Error err) StatusUnauthorized
         | Inr user \<Rightarrow> next w))"

section \<open>The vocabulary of the claims\<close>

text \<open>
  \<open>member_of key v off\<close> is the member \<open>key: n\<close> of a request object when \<open>v = Some n\<close> and
  no member when the field is left out. A value is \<open>in_range\<close> when it lies in 1..4,
  \<open>out_of_range\<close> when it is a Go \<^verbatim>\<open>int\<close> outside 1..4, and \<open>too_wide\<close> when it is an
  integer no \<^verbatim>\<open>int\<close> holds. Two names are case variants of each other when they differ
  only in the case of ASCII letters.
\<close>

definition member_of :: "string \<Rightarrow> int option \<Rightarrow> int \<Rightarrow> (string \<times> jvalue \<times> int) list" where
  "member_of key v off = (case v of None \<Rightarrow> [] | Some n \<Rightarrow> [(key, JInt n, off)])"

definition in_range :: "int option \<Rightarrow> bool" where
  "in_range v = (case v of None \<Rightarrow> False | Some n \<Rightarrow> 1 \<le> n \<and> n \<le> 4)"


definition too_wide :: "int option \<Rightarrow> bool" where
  "too_wide v = (case v of None \<Rightarrow> False | Some n \<Rightarrow> \<not> fits_int n)"

definition case_variant :: "string \<Rightarrow> string \<Rightarrow> bool" where
  "case_variant a b = (map toUpper a = map toUpper b)"

section \<open>Facts about the response writer\<close>

lemma status_cors [simp]: "status (cors w) = status w"
  by (simp add: cors_def Set_def)

lemma body_cors [simp]: "body (cors w) = body w"
  by (simp add: cors_def Set_def)

lemma status_http_Error:
  "status (http_Error w msg code) = (case status w of None \<Rightarrow> Some code | Some c \<Rightarrow> Some c)"
  by (simp add: http_Error_def Write_def WriteHeader_def Set_def Let_def split: option.splits)

lemma body_http_Error: "body (http_Error w msg code) = body w @ [Str (msg @ newline)]"
  by (simp add: http_Error_def Write_def WriteHeader_def Set_def Let_def split: option.splits)


lemma status_decode_switch:
  "status w = Some c \<Longrightarrow> status (decode_switch w err) = Some c"
  by (cases err) (simp_all add: decode_switch_def status_http_Error)

lemma status_decode_failure:
  "status w = None \<Longrightarrow> status (decode_switch (http_Error w msg code) err) = Some code"
  by (rule status_decode_switch) (simp add: status_http_Error)

section \<open>Facts about decoding\<close>


lemma unmarshal_members_fit:
  assumes "find_field ku = Some FUnprocessableFileTypeAction"
      and "find_field kg = Some FGlasswallBlockedFilesAction"
      and "ms = member_of ku ua o1 @ member_of kg ga o2 \<or> ms = member_of kg ga o2 @ member_of ku ua o1"
      and "case ua of None \<Rightarrow> True | Some n \<Rightarrow> fits_int n"
      and "case ga of None \<Rightarrow> True | Some n \<Rightarrow> fits_int n"
  shows "unmarshal (Members ms) = Inr \<lparr>UnprocessableFileTypeAction = ua, GlasswallBlockedFilesAction = ga\<rparr>"
  using assms
  by (auto simp: unmarshal_def member_of_def store_member_def store_value_def zero_Policy_def
        split: option.splits)


lemma toUpper_ascii: "(of_char c :: nat) < 128 \<Longrightarrow> (of_char (toUpper c) :: nat) < 128"
  by (auto simp: toUpper_def Let_def)

lemma toUpper_ascii_inv: "(of_char (toUpper c) :: nat) < 128 \<Longrightarrow> (of_char c :: nat) < 128"
  by (auto simp: toUpper_def Let_def split: if_splits)

lemma foldName_ascii:
  "list_all (\<lambda>c. (of_char c :: nat) < 128) k \<Longrightarrow> foldName k = map toUpper k"
proof (induction k)
  case Nil
  then show ?case by simp
next
  case (Cons c cs)
  then have c: "(of_char c :: nat) < 128" by simp
  have "c \<noteq> CHR 0xC5" "c \<noteq> CHR 0xE2" using c by auto
  then have "foldName (c # cs) = toUpper c # foldName cs"
    by (simp add: numeral_2_eq_2 numeral_3_eq_3)
  with Cons show ?case by simp
qed

lemma case_variant_ascii:
  assumes "case_variant k name" "list_all (\<lambda>c. (of_char c :: nat) < 128) name"
  shows "list_all (\<lambda>c. (of_char c :: nat) < 128) k"
proof -
  have "list_all (\<lambda>c. (of_char c :: nat) < 128) (map toUpper name)"
    using assms(2) by (induction name) (auto simp: toUpper_ascii)
  then have "list_all (\<lambda>c. (of_char c :: nat) < 128) (map toUpper k)"
    using assms(1) by (simp add: case_variant_def)
  then show ?thesis
    by (induction k) (auto simp: toUpper_ascii_inv)
qed

lemma field_name_ascii: "list_all (\<lambda>c. (of_char c :: nat) < 128) (field_name f)"
  by (cases f) simp_all

lemma equalFold_case_variant: "case_variant k (field_name f) \<Longrightarrow> equalFold (field_name f) k"
  using case_variant_ascii [OF _ field_name_ascii, of k f]
  by (simp add: equalFold_def foldName_ascii field_name_ascii case_variant_def)

lemma fold_names_differ:
  "foldName (field_name FUnprocessableFileTypeAction) \<noteq> foldName (field_name FGlasswallBlockedFilesAction)"
  by code_simp

lemma find_field_case_variant:
  assumes "case_variant k (field_name f)"
  shows "find_field k = Some f"
proof -
  have e: "foldName (field_name f) = foldName k"
    using equalFold_case_variant [OF assms] by (simp add: equalFold_def)
  show ?thesis
  proof (cases f)
    case FUnprocessableFileTypeAction
    with e fold_names_differ show ?thesis
      unfolding find_field_def equalFold_def by (auto simp del: field_name.simps)
  next
    case FGlasswallBlockedFilesAction
    with e fold_names_differ show ?thesis
      unfolding find_field_def equalFold_def by (auto simp del: field_name.simps)
  qed
qed

section \<open>Facts about updatePolicy\<close>

lemma updatePolicy_decoded:
  assumes "method \<noteq> ''OPTIONS''"
      and "contentType = [] \<or> ParseValue contentType = ''application/json''"
      and "Decode b = Inr \<lparr>UnprocessableFileTypeAction = ua, GlasswallBlockedFilesAction = ga\<rparr>"
  shows "updatePolicy method contentType b gc up w0 =
     (case ua of
        None \<Rightarrow> \<lparr>writer = http_Error (cors w0) ''UnprocessableFileTypeAction is required.'' 400,
                 args_Policy = None\<rparr>
      | Some u \<Rightarrow>
          if u \<le> 0 \<or> u \<ge> 5 then
            \<lparr>writer = http_Error (cors w0) ''UnprocessableFileTypeAction must be between 1-4 inclusive.'' 400,
             args_Policy = None\<rparr>
          else
            (case ga of
               None \<Rightarrow> \<lparr>writer = http_Error (cors w0) ''GlasswallBlockedFilesAction is required.'' 400,
                        args_Policy = None\<rparr>
             | Some g \<Rightarrow>
                 if g \<le> 0 \<or> g \<ge> 5 then
                   \<lparr>writer = http_Error (cors w0) ''GlasswallBlockedFilesAction  must be between 1-4 inclusive.'' 400,
                    args_Policy = None\<rparr>
                 else
                   \<lparr>writer =
                      (case gc of
                         Some e \<Rightarrow> http_Error (cors w0) ''Something went wrong getting K8 Client.'' 500
                       | None \<Rightarrow>
                           (case up of
                              Some e \<Rightarrow> http_Error (cors w0) ''Something went wrong when updating the config map.'' 500
                            | None \<Rightarrow> Write (cors w0) (Str ''Successfully updated config map.''))),
                    args_Policy = Some (Encode \<lparr>UnprocessableFileTypeAction = ua, GlasswallBlockedFilesAction = ga\<rparr>)\<rparr>))"
  using assms
  by (auto simp: updatePolicy_def Let_def StatusBadRequest_def StatusInternalServerError_def
        split: option.splits)


lemma updatePolicy_members_fit:
  assumes meth: "method \<noteq> ''OPTIONS''"
      and ctyp: "contentType = [] \<or> ParseValue contentType = ''application/json''"
      and ku: "find_field ku = Some FUnprocessableFileTypeAction"
      and kg: "find_field kg = Some FGlasswallBlockedFilesAction"
      and ms: "ms = member_of ku ua o1 @ member_of kg ga o2 \<or> ms = member_of kg ga o2 @ member_of ku ua o1"
      and fit: "\<not> too_wide ua \<and> \<not> too_wide ga"
  shows "updatePolicy method contentType (Scanned (Members ms)) gc up w0 =
     (case ua of
        None \<Rightarrow> \<lparr>writer = http_Error (cors w0) ''UnprocessableFileTypeAction is required.'' 400,
                 args_Policy = None\<rparr>
      | Some u \<Rightarrow>
          if u \<le> 0 \<or> u \<ge> 5 then
            \<lparr>writer = http_Error (cors w0) ''UnprocessableFileTypeAction must be between 1-4 inclusive.'' 400,
             args_Policy = None\<rparr>
          else
            (case ga of
               None \<Rightarrow> \<lparr>writer = http_Error (cors w0) ''GlasswallBlockedFilesAction is required.'' 400,
                        args_Policy = None\<rparr>
             | Some g \<Rightarrow>
                 if g \<le> 0 \<or> g \<ge> 5 then
                   \<lparr>writer = http_Error (cors w0) ''GlasswallBlockedFilesAction  must be between 1-4 inclusive.'' 400,
                    args_Policy = None\<rparr>
                 else
                   \<lparr>writer =
                      (case gc of
                         Some e \<Rightarrow> http_Error (cors w0) ''Something went wrong getting K8 Client.'' 500
                       | None \<Rightarrow>
                           (case up of
                              Some e \<Rightarrow> http_Error (cors w0) ''Something went wrong when updating the config map.'' 500
                            | None \<Rightarrow> Write (cors w0) (Str ''Successfully updated config map.''))),
                    args_Policy = Some (Encode \<lparr>UnprocessableFileTypeAction = ua, GlasswallBlockedFilesAction = ga\<rparr>)\<rparr>))"
proof -
  have "unmarshal (Members ms) = Inr \<lparr>UnprocessableFileTypeAction = ua, GlasswallBlockedFilesAction = ga\<rparr>"
    using fit by (intro unmarshal_members_fit [OF ku kg ms]) (auto simp: too_wide_def split: option.splits)
  then have "Decode (Scanned (Members ms)) = Inr \<lparr>UnprocessableFileTypeAction = ua, GlasswallBlockedFilesAction = ga\<rparr>"
    by (simp add: Decode_def)
  from updatePolicy_decoded [OF meth ctyp this] show ?thesis .
qed


section \<open>Facts about token parsing\<close>





section \<open>Claims\<close>






text \<open>
  C3. A body larger than the cap of 1048576 bytes makes the size-limited reader fail with
  the error "http: request body too large" once the decoder reads past the cap. The claim
  says the client then receives status 413. The handler first answers every decoding
  error with 400 and the error's own text, and only then reaches the case that asks for
  413; that second header is superfluous, so the client receives 400, with both messages
  in the body.
\<close>

theorem updatePolicy_body_too_large:
  "delivered_status (writer (updatePolicy ''PUT'' ''application/json''
       (Unreadable (ErrorString ''http: request body too large'')) None None new_response)) = 400
   \<and> body (writer (updatePolicy ''PUT'' ''application/json''
       (Unreadable (ErrorString ''http: request body too large'')) None None new_response))
     = [Str (''http: request body too large'' @ newline),
        Str (''Request body must not be larger than 1MB'' @ newline)]"
  by (simp add: updatePolicy_def Decode_def decode_switch_def HasPrefix_def ParseValue_def
        expectTokenSlash_def isToken_def separators_def toLower_def
        status_http_Error body_http_Error delivered_status_def new_response_def
        StatusBadRequest_def)

text \<open>
  C4. The claim: when authentication fails the response is 401 and its body is a generic
  message that does not depend on the reason. \<open>authMiddleware\<close> passes the
  authenticator's error text to \<^verbatim>\<open>http.Error\<close>, so two failures with different reasons
  give different bodies, each the reason itself.
\<close>

theorem authMiddleware_echoes_reason:
  "body (authMiddleware ''GET'' (Inl (ErrorString ''Invalid credentials'')) id new_response)
     = [Str (''Invalid credentials'' @ newline)]
   \<and> body (authMiddleware ''GET'' (Inl (ValidationError ''Token is expired'')) id new_response)
     = [Str (''Token is expired'' @ newline)]
   \<and> body (authMiddleware ''GET'' (Inl (ErrorString ''Invalid credentials'')) id new_response)
     \<noteq> body (authMiddleware ''GET'' (Inl (ValidationError ''Token is expired'')) id new_response)"
  by (simp add: authMiddleware_def body_http_Error new_response_def newline_def)

text \<open>
  C4, amended. When authentication fails (on any method but OPTIONS) the response has
  status 401, its body is the text of the authenticator's error followed by a newline,
  and the router is not called.
\<close>

theorem authMiddleware_unauthorized:
  assumes "method \<noteq> ''OPTIONS''"
  shows "authMiddleware method (Inl err) next new_response
           = http_Error (cors new_response) (Error err) 401
       \<and> status (authMiddleware method (Inl err) next new_response) = Some 401
       \<and> body (authMiddleware method (Inl err) next new_response) = [Str (Error err @ newline)]"
  using assms
  by (simp add: authMiddleware_def status_http_Error body_http_Error new_response_def
        StatusUnauthorized_def)

theorem authMiddleware_unauthorized_witness:
  "''GET'' \<noteq> ''OPTIONS''
   \<and> status (authMiddleware ''GET'' (Inl (ErrorString ''Invalid credentials''))
               (\<lambda>w. Write w (Str ''token'')) new_response) = Some 401
   \<and> body (authMiddleware ''GET'' (Inl (ErrorString ''Invalid credentials''))
               (\<lambda>w. Write w (Str ''token'')) new_response)
       = [Str (''Invalid credentials'' @ newline)]"
proof -
  have m: "''GET'' \<noteq> ''OPTIONS''" by simp
  from authMiddleware_unauthorized [OF m, of "ErrorString ''Invalid credentials''"
      "\<lambda>w. Write w (Str ''token'')"] m
  show ?thesis unfolding Error.simps by blast
qed









text \<open>
  C8. The claim: a Content-Type header is accepted only when it is exactly
  \<open>application/json\<close>, and any other value, parameters included, gives 415. The handler
  compares the media type that \<^verbatim>\<open>ParseValueAndParams\<close> extracts, so
  \<open>application/json; charset=utf-8\<close> is accepted.
\<close>

theorem updatePolicy_accepts_parameters:
  "''application/json; charset=utf-8'' \<noteq> ''application/json''
   \<and> delivered_status (writer (updatePolicy ''PUT'' ''application/json; charset=utf-8''
        (Scanned (Members [(''unprocessableFileTypeAction'', JInt 1, 32),
                           (''glasswallBlockedFilesAction'', JInt 2, 64)]))
        None None new_response)) = 200"
  by code_simp

text \<open>
  C8, amended. A request that carries a Content-Type header is answered with 415, and the
  message "Content-Type header is not application/json", exactly when the leading media
  type of the header (its first run of token characters and slashes, in lower case) is
  not \<open>application/json\<close>; otherwise the status is never 415.
\<close>

theorem updatePolicy_content_type:
  assumes "method \<noteq> ''OPTIONS''" "contentType \<noteq> []"
  shows "(ParseValue contentType \<noteq> ''application/json'' \<longrightarrow>
            writer (updatePolicy method contentType b gc up new_response)
              = http_Error (cors new_response) ''Content-Type header is not application/json'' 415
          \<and> args_Policy (updatePolicy method contentType b gc up new_response) = None)
       \<and> (ParseValue contentType = ''application/json'' \<longrightarrow>
            delivered_status (writer (updatePolicy method contentType b gc up new_response)) \<noteq> 415)"
  using assms
  by (auto simp: updatePolicy_def Let_def status_http_Error delivered_status_def status_decode_failure
      new_response_def StatusUnsupportedMediaType_def StatusBadRequest_def StatusInternalServerError_def
      Write_def WriteHeader_def
      split: sum.splits option.splits)

theorem updatePolicy_content_type_witness:
  "ParseValue ''text/plain'' \<noteq> ''application/json''
   \<and> writer (updatePolicy ''PUT'' ''text/plain'' (Unreadable EOF) None None new_response)
       = http_Error (cors new_response) ''Content-Type header is not application/json'' 415
   \<and> ParseValue ''Application/JSON;charset=utf-8'' = ''application/json''
   \<and> delivered_status (writer (updatePolicy ''PUT'' ''Application/JSON;charset=utf-8''
        (Unreadable EOF) None None new_response)) \<noteq> 415"
proof -
  have m: "''PUT'' \<noteq> ''OPTIONS''" by simp
  have p1: "ParseValue ''text/plain'' \<noteq> ''application/json''" by code_simp
  have p2: "ParseValue ''Application/JSON;charset=utf-8'' = ''application/json''" by code_simp
  have n1: "''text/plain'' \<noteq> []" and n2: "''Application/JSON;charset=utf-8'' \<noteq> []" by simp_all
  from updatePolicy_content_type [OF m n1, of "Unreadable EOF" None None] p1
  have "writer (updatePolicy ''PUT'' ''text/plain'' (Unreadable EOF) None None new_response)
       = http_Error (cors new_response) ''Content-Type header is not application/json'' 415"
    by blast
  moreover from updatePolicy_content_type [OF m n2, of "Unreadable EOF" None None] p2
  have "delivered_status (writer (updatePolicy ''PUT'' ''Application/JSON;charset=utf-8''
        (Unreadable EOF) None None new_response)) \<noteq> 415"
    by blast
  ultimately show ?thesis using p1 p2 by blast
qed

text \<open>
  C9. There is a token with a valid signature under the configured key and an expiry in
  the future, but no \<open>sub\<close> claim, on which \<open>verifyToken\<close> panics; the same happens when
  \<open>sub\<close> is present and not a string.
\<close>

theorem verifyToken_panics_without_sub:
  "(\<exists>t. segment_signature t = HMAC ''HS256'' ''secret'' (segment_header t) (segment_claims t)
       \<and> lookup (segment_header t) ''alg'' = Some (CString ''HS256'')
       \<and> lookup (segment_claims t) ''exp'' = Some (CNumber (now + 300))
       \<and> lookup (segment_claims t) ''sub'' = None
       \<and> verifyToken now (Compact t) = Panic)
   \<and> (\<exists>t. segment_signature t = HMAC ''HS256'' ''secret'' (segment_header t) (segment_claims t)
       \<and> lookup (segment_header t) ''alg'' = Some (CString ''HS256'')
       \<and> lookup (segment_claims t) ''exp'' = Some (CNumber (now + 300))
       \<and> lookup (segment_claims t) ''sub'' = Some (CNumber 7)
       \<and> verifyToken now (Compact t) = Panic)"
proof
  let ?h = "[(''typ'', CString ''JWT''), (''alg'', CString ''HS256'')]"
  let ?c1 = "[(''exp'', CNumber (now + 300))]"
  let ?c2 = "[(''sub'', CNumber 7), (''exp'', CNumber (now + 300))]"
  let ?t1 = "\<lparr>segment_header = ?h, segment_claims = ?c1,
              segment_signature = HMAC ''HS256'' ''secret'' ?h ?c1\<rparr>"
  let ?t2 = "\<lparr>segment_header = ?h, segment_claims = ?c2,
              segment_signature = HMAC ''HS256'' ''secret'' ?h ?c2\<rparr>"
  have "verifyToken now (Compact ?t1) = Panic"
    by (simp add: verifyToken_def Parse_def lookup_def GetSigningMethod_def keyFunc_def Verify_def
        MapClaims_Valid_def VerifyExpiresAt_def VerifyIssuedAt_def VerifyNotBefore_def
        verifyExp_def Let_def)
  then show "\<exists>t. segment_signature t = HMAC ''HS256'' ''secret'' (segment_header t) (segment_claims t)
       \<and> lookup (segment_header t) ''alg'' = Some (CString ''HS256'')
       \<and> lookup (segment_claims t) ''exp'' = Some (CNumber (now + 300))
       \<and> lookup (segment_claims t) ''sub'' = None
       \<and> verifyToken now (Compact t) = Panic"
    by (intro exI [of _ ?t1]) (simp add: lookup_def)
  have "verifyToken now (Compact ?t2) = Panic"
    by (simp add: verifyToken_def Parse_def lookup_def GetSigningMethod_def keyFunc_def Verify_def
        MapClaims_Valid_def VerifyExpiresAt_def VerifyIssuedAt_def VerifyNotBefore_def
        verifyExp_def Let_def)
  then show "\<exists>t. segment_signature t = HMAC ''HS256'' ''secret'' (segment_header t) (segment_claims t)
       \<and> lookup (segment_header t) ''alg'' = Some (CString ''HS256'')
       \<and> lookup (segment_claims t) ''exp'' = Some (CNumber (now + 300))
       \<and> lookup (segment_claims t) ''sub'' = Some (CNumber 7)
       \<and> verifyToken now (Compact t) = Panic"
    by (intro exI [of _ ?t2]) (simp add: lookup_def)
qed

text \<open>
  C10. Field names are matched without regard to case. A key that is a case variant of
  a field's name resolves to that field, and a body holding it with an integer binds the
  integer to that field; with both fields given under case variants and in range, the
  handler accepts the request. The unknown-field error is raised only for a key that is
  a case variant of neither name.
\<close>

theorem field_names_match_case_insensitively:
  "(case_variant k (field_name f) \<longrightarrow>
       find_field k = Some f
     \<and> (fits_int n \<longrightarrow>
          Decode (Scanned (Members [(k, JInt n, off)])) = Inr (set_field f (Some n) zero_Policy)))
   \<and> (case_variant ku (field_name FUnprocessableFileTypeAction)
      \<and> case_variant kg (field_name FGlasswallBlockedFilesAction)
      \<and> in_range ua \<and> in_range ga \<and> method \<noteq> ''OPTIONS'' \<longrightarrow>
        args_Policy (updatePolicy method [] (Scanned (Members (member_of ku ua o1 @ member_of kg ga o2)))
                       gc up new_response)
          = Some (Encode \<lparr>UnprocessableFileTypeAction = ua, GlasswallBlockedFilesAction = ga\<rparr>))
   \<and> (snd (store_member (k, v, off) (p, None))
         = Some (ErrorString (''json: unknown field '' @ fmt_q k)) \<longrightarrow>
       \<not> case_variant k (field_name FUnprocessableFileTypeAction)
       \<and> \<not> case_variant k (field_name FGlasswallBlockedFilesAction))"
proof -
  have c1: "find_field k = Some f
     \<and> (fits_int n \<longrightarrow>
          Decode (Scanned (Members [(k, JInt n, off)])) = Inr (set_field f (Some n) zero_Policy))"
    if "case_variant k (field_name f)"
    using find_field_case_variant [OF that]
    by (simp add: Decode_def unmarshal_def store_member_def store_value_def)
  have c2: "args_Policy (updatePolicy method [] (Scanned (Members (member_of ku ua o1 @ member_of kg ga o2)))
                       gc up new_response)
          = Some (Encode \<lparr>UnprocessableFileTypeAction = ua, GlasswallBlockedFilesAction = ga\<rparr>)"
    if a: "case_variant ku (field_name FUnprocessableFileTypeAction)
      \<and> case_variant kg (field_name FGlasswallBlockedFilesAction)
      \<and> in_range ua \<and> in_range ga \<and> method \<noteq> ''OPTIONS''"
  proof -
    from a have fu: "find_field ku = Some FUnprocessableFileTypeAction"
      and fg: "find_field kg = Some FGlasswallBlockedFilesAction"
      by (simp_all add: find_field_case_variant)
    from a have m: "method \<noteq> ''OPTIONS''" by simp
    have c: "[] = [] \<or> ParseValue [] = ''application/json''" by simp
    from a have fit: "\<not> too_wide ua \<and> \<not> too_wide ga"
      by (auto simp: in_range_def too_wide_def fits_int_def split: option.splits)
    have ms: "member_of ku ua o1 @ member_of kg ga o2 = member_of ku ua o1 @ member_of kg ga o2
            \<or> member_of ku ua o1 @ member_of kg ga o2 = member_of kg ga o2 @ member_of ku ua o1"
      by simp
    from updatePolicy_members_fit [OF m c fu fg ms fit, of gc up new_response] a
    show ?thesis
      by (auto simp: in_range_def split: option.splits)
  qed
  have c3: "\<not> case_variant k (field_name FUnprocessableFileTypeAction)
       \<and> \<not> case_variant k (field_name FGlasswallBlockedFilesAction)"
    if e: "snd (store_member (k, v, off) (p, None))
         = Some (ErrorString (''json: unknown field '' @ fmt_q k))"
  proof -
    have "find_field k = None"
    proof (cases "find_field k")
      case (Some f)
      with e show ?thesis
        by (cases v)
           (auto simp: store_member_def store_value_def saveError_def split: if_splits)
    qed simp
    with find_field_case_variant [of k] show ?thesis by fastforce
  qed
  from c1 c2 c3 show ?thesis by blast
qed

theorem field_names_match_case_insensitively_witness:
  "case_variant ''UNPROCESSABLEFILETYPEACTION'' (field_name FUnprocessableFileTypeAction)
   \<and> fits_int 3
   \<and> Decode (Scanned (Members [(''UNPROCESSABLEFILETYPEACTION'', JInt 3, 32)]))
       = Inr \<lparr>UnprocessableFileTypeAction = Some 3, GlasswallBlockedFilesAction = None\<rparr>
   \<and> snd (store_member (''foo'', JInt 1, 7) (zero_Policy, None))
       = Some (ErrorString (''json: unknown field '' @ fmt_q ''foo''))
   \<and> \<not> case_variant ''foo'' (field_name FUnprocessableFileTypeAction)"
proof -
  have cv: "case_variant ''UNPROCESSABLEFILETYPEACTION'' (field_name FUnprocessableFileTypeAction)"
    by code_simp
  have fi: "fits_int 3" by (simp add: fits_int_def)
  have uf: "snd (store_member (''foo'', JInt 1, 7) (zero_Policy, None))
       = Some (ErrorString (''json: unknown field '' @ fmt_q ''foo''))"
    by code_simp
  from field_names_match_case_insensitively
         [where k = "''UNPROCESSABLEFILETYPEACTION''" and f = FUnprocessableFileTypeAction
            and n = 3 and off = 32] cv fi
  have "Decode (Scanned (Members [(''UNPROCESSABLEFILETYPEACTION'', JInt 3, 32)]))
       = Inr \<lparr>UnprocessableFileTypeAction = Some 3, GlasswallBlockedFilesAction = None\<rparr>"
    by (simp add: zero_Policy_def)
  moreover from field_names_match_case_insensitively
         [where k = "''foo''" and v = "JInt 1" and off = 7 and p = zero_Policy] uf
  have "\<not> case_variant ''foo'' (field_name FUnprocessableFileTypeAction)"
    by blast
  ultimately show ?thesis using cv fi uf by blast
qed

end
